theory Spec2Isabelle
  imports Complex_Main
begin

section \<open>Requests, responses and stored values\<close>

text \<open>
  The datapool keeps three SQLite files, one per primitive family: \<^verbatim>\<open>counters.sqlite\<close>
  (one table \<^verbatim>\<open>counters\<close>), \<^verbatim>\<open>maps.sqlite\<close> (one table \<^verbatim>\<open>maps\<close>) and
  \<^verbatim>\<open>queues.sqlite\<close> (one table per queue). Every route handler is embedded as a function
  from the request and the database to the response and the database it leaves behind.
  Each handler is taken as one uninterrupted run of its statements; lock contention and
  I/O errors are outside the embedding. A handler's input is the request as Express
  hands it over: the path parameter, the parsed query and the parsed JSON body.

  A request or response body is a JSON value. A JSON number is a rational here (every
  IEEE double is one).
\<close>

datatype json =
    JNull
  | JBool bool
  | JNumber rat
  | JString string
  | JArray "json list"
  | JObject "(string \<times> json) list"

text \<open>
  What a handler answers instead of its payload: \<open>ValidationError\<close> is the 400 of
  \<^verbatim>\<open>validationResult\<close>, \<open>NotFound\<close> the 404 of an absent queue or key,
  \<open>StorageError\<close> the 500 that follows \<^verbatim>\<open>next(err)\<close> when SQLite refuses a statement,
  and \<open>RangeError\<close> and \<open>TypeError\<close> are the JavaScript exceptions a callback can throw.
\<close>

datatype error = ValidationError | NotFound | StorageError | RangeError | TypeError

subsection \<open>Validators of the boundary\<close>

text \<open>
  \<^verbatim>\<open>param(..).isAlphanumeric()\<close>: the name matches \<^verbatim>\<open>/^[0-9A-Z]+$/i\<close>.
\<close>

definition alphanumerics :: string where
  "alphanumerics = ''0123456789ABCDEFGHIJKLMNOPQRSTUVWXYZabcdefghijklmnopqrstuvwxyz''"

definition isAlphanumeric :: "string \<Rightarrow> bool" where
  "isAlphanumeric str = (str \<noteq> [] \<and> list_all (\<lambda>c. c \<in> set alphanumerics) str)"

text \<open>
  \<^verbatim>\<open>isInt({min, max})\<close> on a body or query parameter that is an integer.
\<close>

definition isInt :: "int \<Rightarrow> int \<Rightarrow> int \<Rightarrow> bool" where
  "isInt lo hi n = (lo \<le> n \<and> n \<le> hi)"

definition MAX_SAFE_INTEGER :: int where
  "MAX_SAFE_INTEGER = 2 ^ 53 - 1"

subsection \<open>SQLite integers read into JavaScript\<close>

text \<open>
  A column of type INTEGER holds a 64-bit integer, and SQLite computes \<^verbatim>\<open>value + 1\<close>
  on it exactly. The counter route reads it back with \<^verbatim>\<open>payload = row.value\<close>, which
  hands it to JavaScript as a Number, that is as the IEEE double nearest to it (ties to
  the even mantissa), and \<^verbatim>\<open>res.json(payload)\<close> writes that Number. \<open>ulp m\<close> is the
  distance between neighbouring doubles at magnitude \<open>m\<close>: 1 below \<open>2^53\<close>, doubling
  with every further bit. \<open>js_Number i\<close> is the integer value of the Number read from the
  stored integer \<open>i\<close>. (Stored values are taken within SQLite's 64-bit integers.)
\<close>

function ulp :: "nat \<Rightarrow> nat" where
  "ulp m = (if m < 2 ^ 53 then 1 else 2 * ulp (m div 2))"
  by pat_completeness auto
termination
  by (relation "measure id") auto

declare ulp.simps [simp del]

definition js_Number :: "int \<Rightarrow> int" where
  "js_Number i =
     (let m = nat \<bar>i\<bar>; u = ulp m; q = m div u; r = m mod u;
          q' = (if u < 2 * r \<or> (u = 2 * r \<and> odd q) then q + 1 else q)
      in sgn i * int (q' * u))"

section \<open>Counter engine\<close>

text \<open>
  The table \<^verbatim>\<open>counters (name TEXT NOT NULL PRIMARY KEY, value INTEGER DEFAULT 0)\<close>:
  at most one row per name. Both writers store integers only, so a row is a name with
  its integer.
\<close>

type_synonym counters = "string \<rightharpoonup> int"

text \<open>
  The value the specification reads for a counter: 0 when no row for the name exists.
\<close>

definition stored :: "counters \<Rightarrow> string \<Rightarrow> int" where
  "stored db name = (case db name of None \<Rightarrow> 0 | Some v \<Rightarrow> v)"

text \<open>
  \<^verbatim>\<open>router.post('/:counter')\<close> (initialize). The body is validated by
  \<^verbatim>\<open>isInt({min: 1, max: Number.MAX_SAFE_INTEGER})\<close>; a request that fails validation
  is answered 400 before any statement runs. Otherwise
  \<^verbatim>\<open>INSERT OR REPLACE INTO counters (name, value) VALUES (?, ?)\<close> runs and the answer
  is 201 with an empty body.
\<close>

definition counter_post :: "string \<Rightarrow> int \<Rightarrow> counters \<Rightarrow> (error + unit) \<times> counters" where
  "counter_post counterName counterValue db =
     (if \<not> (isAlphanumeric counterName \<and> isInt 1 MAX_SAFE_INTEGER counterValue)
      then (Inl ValidationError, db)
      else (Inr (), db(counterName \<mapsto> counterValue)))"

text \<open>
  SQL's \<^verbatim>\<open>COALESCE(x, y)\<close> with NULL as \<open>None\<close>, and \<^verbatim>\<open>x + 1\<close>, which is NULL on
  NULL. The scalar subquery \<^verbatim>\<open>(SELECT value FROM counters WHERE name = ?)\<close> is NULL
  when no row matches.
\<close>

definition COALESCE :: "int option \<Rightarrow> int \<Rightarrow> int" where
  "COALESCE x y = (case x of None \<Rightarrow> y | Some v \<Rightarrow> v)"

definition plus_one :: "int option \<Rightarrow> int option" where
  "plus_one x = map_option (\<lambda>v. v + 1) x"

text \<open>
  \<^verbatim>\<open>router.get('/:counter')\<close> (incrementAndGet). Inside one exclusive transaction:
  \<^verbatim>\<open>INSERT OR REPLACE INTO counters (name, value) VALUES (?, COALESCE((SELECT value
  FROM counters WHERE name = ?) + 1, 1))\<close>, then \<^verbatim>\<open>SELECT value FROM counters WHERE
  name = ?\<close>, whose \<^verbatim>\<open>row.value\<close> is the payload (reading a field of a missing row
  throws), then the commit and \<^verbatim>\<open>res.json(payload)\<close>.
\<close>

definition counter_get :: "string \<Rightarrow> counters \<Rightarrow> (error + int) \<times> counters" where
  "counter_get counterName db =
     (if \<not> isAlphanumeric counterName then (Inl ValidationError, db)
      else
        let db1 = db(counterName \<mapsto> COALESCE (plus_one (db counterName)) 1)
        in (case db1 counterName of
              None \<Rightarrow> (Inl TypeError, db1)
            | Some v \<Rightarrow> (Inr (js_Number v), db1)))"

text \<open>
  \<^verbatim>\<open>router.delete('/:counter')\<close>: \<^verbatim>\<open>DELETE FROM counters WHERE name = ?\<close>, 200.
\<close>

definition counter_delete :: "string \<Rightarrow> counters \<Rightarrow> (error + unit) \<times> counters" where
  "counter_delete counterName db =
     (if \<not> isAlphanumeric counterName then (Inl ValidationError, db)
      else (Inr (), db(counterName := None)))"

section \<open>Body validation\<close>

text \<open>
  \<^verbatim>\<open>body().isArray()\<close> is \<^verbatim>\<open>Array.isArray\<close> of the parsed body.
\<close>

definition isArray :: "json \<Rightarrow> bool" where
  "isArray body = (case body of JArray items \<Rightarrow> True | _ \<Rightarrow> False)"

text \<open>
  \<^verbatim>\<open>body().notEmpty()\<close> is express-validator's; the handlers below take the body
  validator as an argument, and \<open>notEmpty\<close> is the library's. It turns the body into a
  string and refuses the empty string. The string of a non-empty array is the string of
  its first element; otherwise \<open>null\<close> gives the empty string, a string gives itself, an
  array gives its elements' strings joined by commas (\<open>null\<close> elements as empty
  strings), and a number, a boolean or an object gives a string that is not empty. So,
  as the comment in the map route has it, the validator "catches a POST body of null or
  "" or [], but does not prevent {}"; it also catches an array whose first element is
  \<open>null\<close>, \<open>""\<close> or \<open>[]\<close>. \<open>stringifies_empty x\<close> holds when \<open>x\<close>, as an element or
  a body that is not read by its first element, gives the empty string.
\<close>

fun stringifies_empty :: "json \<Rightarrow> bool" where
  "stringifies_empty JNull = True"
| "stringifies_empty (JString s) = (s = [])"
| "stringifies_empty (JArray []) = True"
| "stringifies_empty (JArray [x]) = stringifies_empty x"
| "stringifies_empty _ = False"

definition notEmpty :: "json \<Rightarrow> bool" where
  "notEmpty body =
     (case body of
        JArray (first # others) \<Rightarrow> \<not> stringifies_empty first
      | _ \<Rightarrow> \<not> stringifies_empty body)"

section \<open>Map store\<close>

text \<open>
  The table \<^verbatim>\<open>maps (name TEXT NOT NULL PRIMARY KEY, value TEXT NOT NULL)\<close>. The text
  stored is \<^verbatim>\<open>JSON.stringify(req.body)\<close> and every read applies \<^verbatim>\<open>JSON.parse\<close> to
  it; the embedding keeps the JSON value that text denotes.
\<close>

type_synonym maps = "string \<rightharpoonup> json"

text \<open>
  \<^verbatim>\<open>router.post('/:map')\<close> (put): 400 when the key or the body fails validation,
  otherwise \<^verbatim>\<open>INSERT OR REPLACE INTO maps (name, value) VALUES (?, ?)\<close> and 201.
\<close>

definition map_post :: "(json \<Rightarrow> bool) \<Rightarrow> string \<Rightarrow> json \<Rightarrow> maps \<Rightarrow> (error + unit) \<times> maps" where
  "map_post bodyNotEmpty mapKey body db =
     (if \<not> (isAlphanumeric mapKey \<and> bodyNotEmpty body) then (Inl ValidationError, db)
      else (Inr (), db(mapKey \<mapsto> body)))"

text \<open>
  \<^verbatim>\<open>router.get('/:map')\<close> (get): \<^verbatim>\<open>SELECT value FROM maps WHERE name = ?\<close>; 404 when
  there is no row, otherwise the parsed value.
\<close>

definition map_get :: "string \<Rightarrow> maps \<Rightarrow> (error + json) \<times> maps" where
  "map_get mapKey db =
     (if \<not> isAlphanumeric mapKey then (Inl ValidationError, db)
      else (case db mapKey of
              None \<Rightarrow> (Inl NotFound, db)
            | Some v \<Rightarrow> (Inr v, db)))"

text \<open>
  \<^verbatim>\<open>router.delete('/:map')\<close>: \<^verbatim>\<open>DELETE FROM maps WHERE name = ?\<close>, 200.
\<close>

definition map_delete :: "string \<Rightarrow> maps \<Rightarrow> (error + unit) \<times> maps" where
  "map_delete mapKey db =
     (if \<not> isAlphanumeric mapKey then (Inl ValidationError, db)
      else (Inr (), db(mapKey := None)))"

section \<open>Queue engine\<close>

text \<open>
  Each queue is a table of its own, created by
  \<^verbatim>\<open>CREATE TABLE IF NOT EXISTS name (position INTEGER PRIMARY KEY, item TEXT NOT NULL)\<close>.
  A row is a position with its item (the JSON value whose \<^verbatim>\<open>JSON.stringify\<close> text the
  column holds), and the database maps the names in \<^verbatim>\<open>sqlite_master\<close>, spelled as they
  were when the table was created, to their rows.
\<close>

type_synonym row = "int \<times> json"

type_synonym queues = "string \<rightharpoonup> row list"

text \<open>
  The schema's \<^verbatim>\<open>PRIMARY KEY\<close>: no two rows of a table share a position.
\<close>

definition primary_key :: "row list \<Rightarrow> bool" where
  "primary_key rows = distinct (map fst rows)"

text \<open>
  \<^verbatim>\<open>dbTableExists\<close>: \<^verbatim>\<open>SELECT count(*) FROM sqlite_master WHERE type='table' AND
  name=?\<close>, as a boolean.
\<close>

definition dbTableExists :: "queues \<Rightarrow> string \<Rightarrow> bool" where
  "dbTableExists db tableName = (db tableName \<noteq> None)"

text \<open>
  The rows of a table that exists (a table just created has none).
\<close>

definition table_rows :: "queues \<Rightarrow> string \<Rightarrow> row list" where
  "table_rows db tableName = (case db tableName of None \<Rightarrow> [] | Some rows \<Rightarrow> rows)"

text \<open>
  The queue name is spliced into the text of every statement
  (\<^verbatim>\<open>INSERT INTO ${queueName} ...\<close>), where SQLite reads it as a table name: letter
  case does not count there (\<open>q\<close> and \<open>Q\<close> name the same table), while
  \<^verbatim>\<open>dbTableExists\<close> compares the bound parameter with the stored spelling exactly.
  \<open>spellings name\<close> lists the name in every letter case, the name itself first, and
  \<open>sql_table db name\<close> is the stored spelling of the table that the name in a
  statement denotes, if there is one.
\<close>

definition upper_case :: string where
  "upper_case = ''ABCDEFGHIJKLMNOPQRSTUVWXYZ''"

definition lower_case :: string where
  "lower_case = ''abcdefghijklmnopqrstuvwxyz''"

definition case_forms :: "char \<Rightarrow> char list" where
  "case_forms c =
     (case map_of (zip upper_case lower_case @ zip lower_case upper_case) c of
        None \<Rightarrow> [c]
      | Some d \<Rightarrow> [c, d])"

fun spellings :: "string \<Rightarrow> string list" where
  "spellings [] = [[]]"
| "spellings (c # cs) = concat (map (\<lambda>rest. map (\<lambda>d. d # rest) (case_forms c)) (spellings cs))"

definition sql_table :: "queues \<Rightarrow> string \<Rightarrow> string option" where
  "sql_table db tableName = find (\<lambda>k. db k \<noteq> None) (spellings tableName)"

text \<open>
  Two things depend on the build of SQLite that \<^verbatim>\<open>require('sqlite3')\<close> brings along:
  which alphanumeric words its grammar takes as a table name (never one that starts
  with a digit, such as \<^verbatim>\<open>1abc\<close>, nor a reserved word such as \<^verbatim>\<open>order\<close>), and how
  many \<^verbatim>\<open>?\<close> one statement may hold (\<^verbatim>\<open>SQLITE_MAX_VARIABLE_NUMBER\<close>). The handlers
  that splice a name into a statement that may fail take the build as an argument.
\<close>

record sqlite_build =
  table_name_ok :: "string \<Rightarrow> bool"
  max_variables :: nat

text \<open>
  A build for the examples: it takes the words that start with a letter and are not
  among SQLite's keywords (a real build takes some of the keywords too), and 32766
  variables.
\<close>

definition to_lower :: "char \<Rightarrow> char" where
  "to_lower c = (case map_of (zip upper_case lower_case) c of None \<Rightarrow> c | Some d \<Rightarrow> d)"

definition sql_keywords :: "string list" where
  "sql_keywords =
     [''abort'', ''action'', ''add'', ''after'', ''all'', ''alter'', ''always'', ''analyze'',
      ''and'', ''as'', ''asc'', ''attach'', ''autoincrement'', ''before'', ''begin'',
      ''between'', ''by'', ''cascade'', ''case'', ''cast'', ''check'', ''collate'', ''column'',
      ''commit'', ''conflict'', ''constraint'', ''create'', ''cross'', ''current'',
      ''database'', ''default'', ''deferrable'', ''deferred'', ''delete'', ''desc'',
      ''detach'', ''distinct'', ''do'', ''drop'', ''each'', ''else'', ''end'', ''escape'',
      ''except'', ''exclude'', ''exclusive'', ''exists'', ''explain'', ''fail'', ''filter'',
      ''first'', ''following'', ''for'', ''foreign'', ''from'', ''full'', ''generated'',
      ''glob'', ''group'', ''groups'', ''having'', ''if'', ''ignore'', ''immediate'', ''in'',
      ''index'', ''indexed'', ''initially'', ''inner'', ''insert'', ''instead'',
      ''intersect'', ''into'', ''is'', ''isnull'', ''join'', ''key'', ''last'', ''left'',
      ''like'', ''limit'', ''match'', ''materialized'', ''natural'', ''no'', ''not'',
      ''nothing'', ''notnull'', ''null'', ''nulls'', ''of'', ''offset'', ''on'', ''or'',
      ''order'', ''others'', ''outer'', ''over'', ''partition'', ''plan'', ''pragma'',
      ''preceding'', ''primary'', ''query'', ''raise'', ''range'', ''recursive'',
      ''references'', ''regexp'', ''reindex'', ''release'', ''rename'', ''replace'',
      ''restrict'', ''returning'', ''right'', ''rollback'', ''row'', ''rows'', ''savepoint'',
      ''select'', ''set'', ''table'', ''temp'', ''temporary'', ''then'', ''ties'', ''to'',
      ''transaction'', ''trigger'', ''unbounded'', ''union'', ''unique'', ''update'',
      ''using'', ''vacuum'', ''values'', ''view'', ''virtual'', ''when'', ''where'',
      ''window'', ''with'', ''without'']"

definition plain_table_name :: "string \<Rightarrow> bool" where
  "plain_table_name name =
     (case name of
        [] \<Rightarrow> False
      | c # cs \<Rightarrow> c \<notin> set ''0123456789'' \<and> map to_lower name \<notin> set sql_keywords)"

definition sqlite3 :: sqlite_build where
  "sqlite3 = \<lparr>table_name_ok = plain_table_name, max_variables = 32766\<rparr>"

text \<open>
  The invariant of the queue database: the primary key holds in every table.
\<close>

definition positions_unique :: "queues \<Rightarrow> bool" where
  "positions_unique db = (\<forall>name. primary_key (table_rows db name))"

text \<open>
  \<^verbatim>\<open>INSERT INTO name (item) VALUES (?), (?), ...\<close> names no position. The column is an
  \<^verbatim>\<open>INTEGER PRIMARY KEY\<close> without \<^verbatim>\<open>AUTOINCREMENT\<close>, so each row inserted gets one
  more than the largest position in the table at that moment, and 1 when the table is
  empty. (Positions stay far below the 64-bit maximum, where SQLite would pick an unused
  one at random.)
\<close>

definition max_position :: "row list \<Rightarrow> int" where
  "max_position rows = (case map fst rows of [] \<Rightarrow> 0 | p # ps \<Rightarrow> fold max ps p)"

definition insert_item :: "row list \<Rightarrow> json \<Rightarrow> row list" where
  "insert_item rows item = rows @ [(max_position rows + 1, item)]"

fun insert_items :: "row list \<Rightarrow> json list \<Rightarrow> row list" where
  "insert_items rows [] = rows"
| "insert_items rows (item # items) = insert_items (insert_item rows item) items"

text \<open>
  \<^verbatim>\<open>CREATE TABLE IF NOT EXISTS name (...)\<close>: refused when the name is no table name;
  nothing to do when the name already denotes a table, in whatever spelling.
  \<^verbatim>\<open>INSERT INTO name (item) VALUES (?), ...\<close>: refused when the name is no table name,
  when there is no \<^verbatim>\<open>(?)\<close> at all, when there are more of them than the build allows,
  and when the name denotes no table.
\<close>

definition create_table_if_not_exists :: "sqlite_build \<Rightarrow> string \<Rightarrow> queues \<Rightarrow> error + queues" where
  "create_table_if_not_exists sq tableName db =
     (if \<not> table_name_ok sq tableName then Inl StorageError
      else if sql_table db tableName = None then Inr (db(tableName \<mapsto> []))
      else Inr db)"

definition insert_into :: "sqlite_build \<Rightarrow> string \<Rightarrow> json list \<Rightarrow> queues \<Rightarrow> error + queues" where
  "insert_into sq tableName items db =
     (if \<not> (table_name_ok sq tableName \<and> items \<noteq> [] \<and> length items \<le> max_variables sq)
      then Inl StorageError
      else (case sql_table db tableName of
              None \<Rightarrow> Inl StorageError
            | Some stored_name \<Rightarrow>
                Inr (db(stored_name \<mapsto> insert_items (table_rows db stored_name) items))))"

text \<open>
  \<^verbatim>\<open>ORDER BY position ASC\<close>, \<^verbatim>\<open>LIMIT n\<close> and \<^verbatim>\<open>DELETE FROM name WHERE position IN
  (...)\<close>. A limit must be a 64-bit integer, else the statement is refused
  (\<^verbatim>\<open>SQLITE_MISMATCH\<close>); a negative limit is no limit.
\<close>

definition order_by_position :: "row list \<Rightarrow> row list" where
  "order_by_position rows = sort_key fst rows"

definition sql_limit :: "int \<Rightarrow> 'a list \<Rightarrow> error + 'a list" where
  "sql_limit n xs =
     (if \<not> (- (2 ^ 63) \<le> n \<and> n < 2 ^ 63) then Inl StorageError
      else if n < 0 then Inr xs
      else Inr (take (nat n) xs))"

definition delete_where_position_in :: "int list \<Rightarrow> row list \<Rightarrow> row list" where
  "delete_where_position_in ps rows = filter (\<lambda>r. fst r \<notin> set ps) rows"

text \<open>
  \<^verbatim>\<open>router.post('/:queue')\<close> (enqueue). The body must be an array that passes
  \<^verbatim>\<open>notEmpty()\<close>. Inside \<^verbatim>\<open>db.serialize\<close>: the \<^verbatim>\<open>CREATE TABLE\<close> runs when
  \<^verbatim>\<open>dbTableExists\<close> said the table was missing, and a refusal goes to
  \<^verbatim>\<open>next(err)\<close>; then, whatever became of it, the one \<^verbatim>\<open>INSERT\<close> with all items in
  array order runs, and it answers 201 or goes to \<^verbatim>\<open>next(err)\<close>. No transaction
  surrounds the two, so a table created stays when the insert is refused.
\<close>

definition queue_post ::
  "sqlite_build \<Rightarrow> (json \<Rightarrow> bool) \<Rightarrow> string \<Rightarrow> json \<Rightarrow> queues \<Rightarrow> (error + unit) \<times> queues" where
  "queue_post sq bodyNotEmpty queueName body db =
     (if \<not> (isAlphanumeric queueName \<and> isArray body \<and> bodyNotEmpty body)
      then (Inl ValidationError, db)
      else
        let tableExists = dbTableExists db queueName;
            created = (if \<not> tableExists then create_table_if_not_exists sq queueName db
                       else Inr db);
            db1 = (case created of Inl e \<Rightarrow> db | Inr d \<Rightarrow> d);
            items = (case body of JArray items \<Rightarrow> items | _ \<Rightarrow> [])
        in (case insert_into sq queueName items db1 of
              Inl e \<Rightarrow> (Inl e, db1)
            | Inr db2 \<Rightarrow> (case created of Inl e \<Rightarrow> (Inl e, db2) | Inr d \<Rightarrow> (Inr (), db2))))"

text \<open>
  \<^verbatim>\<open>query('limit').optional().isInt({ min: 1 })\<close>: an absent limit passes.
\<close>

definition limit_valid :: "int option \<Rightarrow> bool" where
  "limit_valid limitParam = (case limitParam of None \<Rightarrow> True | Some l \<Rightarrow> 1 \<le> l)"

text \<open>
  \<^verbatim>\<open>router.get('/:queue')\<close> (dequeue). 400 on an invalid name or limit, 404 when the
  table does not exist. Otherwise \<^verbatim>\<open>limit = req.query.limit || 1\<close> and, inside one
  exclusive transaction, \<^verbatim>\<open>SELECT * FROM name ORDER BY position ASC LIMIT ?\<close>, whose
  rows' items are the payload, then \<^verbatim>\<open>DELETE FROM name WHERE position IN (SELECT
  position FROM name ORDER BY position ASC LIMIT ?)\<close>, then the commit. The validator
  \<^verbatim>\<open>isInt({ min: 1 })\<close> has no maximum: a limit that SQLite refuses makes both
  statements fail, each going to \<^verbatim>\<open>next(err)\<close>, and nothing is removed.
\<close>

definition queue_get :: "string \<Rightarrow> int option \<Rightarrow> queues \<Rightarrow> (error + json list) \<times> queues" where
  "queue_get queueName limitParam db =
     (if \<not> (isAlphanumeric queueName \<and> limit_valid limitParam) then (Inl ValidationError, db)
      else if \<not> dbTableExists db queueName then (Inl NotFound, db)
      else
        let limit = (case limitParam of None \<Rightarrow> 1 | Some l \<Rightarrow> l);
            rows = table_rows db queueName
        in (case sql_limit limit (order_by_position rows) of
              Inl e \<Rightarrow> (Inl e, db)
            | Inr selected \<Rightarrow>
                (Inr (map snd selected),
                 db(queueName \<mapsto> delete_where_position_in (map fst selected) rows))))"

text \<open>
  \<^verbatim>\<open>router.delete('/:queue')\<close> (clear): 200 at once when the table does not exist,
  otherwise \<^verbatim>\<open>DROP TABLE name\<close> and 200.
\<close>

definition queue_delete :: "string \<Rightarrow> queues \<Rightarrow> (error + unit) \<times> queues" where
  "queue_delete queueName db =
     (if \<not> isAlphanumeric queueName then (Inl ValidationError, db)
      else if \<not> dbTableExists db queueName then (Inr (), db)
      else (Inr (), db(queueName := None)))"

text \<open>
  \<^verbatim>\<open>router.get('/:queue/depth')\<close>: \<^verbatim>\<open>SELECT count(*) FROM name\<close>.
\<close>

definition queue_depth :: "string \<Rightarrow> queues \<Rightarrow> (error + nat) \<times> queues" where
  "queue_depth queueName db =
     (if \<not> isAlphanumeric queueName then (Inl ValidationError, db)
      else if \<not> dbTableExists db queueName then (Inl NotFound, db)
      else (Inr (length (table_rows db queueName)), db))"

text \<open>
  \<^verbatim>\<open>new Array(x)\<close>, as \<^verbatim>\<open>res.json\<close> writes it. For an \<open>x\<close> that is not a number the
  array is \<open>[x]\<close>. For a number it is an array of that length with no elements, each of
  which \<^verbatim>\<open>res.json\<close> writes as \<^verbatim>\<open>null\<close>; a length that is not an integer from 0 to
  \<open>2^32 - 1\<close> throws a RangeError.
\<close>

definition new_Array :: "json \<Rightarrow> error + json list" where
  "new_Array x =
     (case x of
        JNumber len \<Rightarrow>
          if len = of_int \<lfloor>len\<rfloor> \<and> 0 \<le> len \<and> len < 2 ^ 32
          then Inr (replicate (nat \<lfloor>len\<rfloor>) JNull)
          else Inl RangeError
      | _ \<Rightarrow> Inr [x])"

text \<open>
  \<^verbatim>\<open>router.get('/:queue/peek')\<close>: \<^verbatim>\<open>SELECT item FROM name ORDER BY position ASC LIMIT
  1\<close> through \<^verbatim>\<open>db.get\<close>, which yields the first row or none. No row: \<^verbatim>\<open>[]\<close>.
  Otherwise \<^verbatim>\<open>res.json(new Array(JSON.parse(row.item)))\<close>.
\<close>

definition queue_peek :: "string \<Rightarrow> queues \<Rightarrow> (error + json list) \<times> queues" where
  "queue_peek queueName db =
     (if \<not> isAlphanumeric queueName then (Inl ValidationError, db)
      else if \<not> dbTableExists db queueName then (Inl NotFound, db)
      else (case sql_limit 1 (order_by_position (table_rows db queueName)) of
              Inl e \<Rightarrow> (Inl e, db)
            | Inr [] \<Rightarrow> (Inr [], db)
            | Inr (row # _) \<Rightarrow> (new_Array (snd row), db)))"

text \<open>
  \<^verbatim>\<open>router.get('/:queue/export')\<close>: every item in position order, nothing removed.
\<close>

definition queue_export :: "string \<Rightarrow> queues \<Rightarrow> (error + json list) \<times> queues" where
  "queue_export queueName db =
     (if \<not> isAlphanumeric queueName then (Inl ValidationError, db)
      else if \<not> dbTableExists db queueName then (Inl NotFound, db)
      else (Inr (map snd (order_by_position (table_rows db queueName))), db))"

section \<open>Facts about the boundary\<close>

lemma ulp_small: "m < 2 ^ 53 \<Longrightarrow> ulp m = 1"
  by (subst ulp.simps) simp

lemma ulp_step: "2 ^ 53 \<le> m \<Longrightarrow> ulp m = 2 * ulp (m div 2)"
  by (subst ulp.simps) simp

lemma js_Number_below: "\<bar>i\<bar> < 2 ^ 53 \<Longrightarrow> js_Number i = i"
  by (simp add: js_Number_def ulp_small Let_def sgn_if)

lemma js_Number_exact:
  assumes "\<bar>i\<bar> \<le> 2 ^ 53"
  shows "js_Number i = i"
proof -
  consider "\<bar>i\<bar> < 2 ^ 53" | "i = 2 ^ 53" | "i = - (2 ^ 53)"
    using assms by linarith
  then show ?thesis
  proof cases
    case 1
    then show ?thesis by (rule js_Number_below)
  next
    case 2
    then show ?thesis by (simp add: js_Number_def Let_def ulp_step ulp_small)
  next
    case 3
    then show ?thesis by (simp add: js_Number_def Let_def ulp_step ulp_small)
  qed
qed

lemma orderId_alphanumeric: "isAlphanumeric ''orderId''"
  by (simp add: isAlphanumeric_def alphanumerics_def)

section \<open>Counter engine: initialize\<close>

text \<open>
  C9 is stated for every integer start value of at least 1. The handler's validator
  has an upper bound as well: the start value 9007199254740992 is at least 1 and is
  refused with a validation error, the store untouched.
\<close>

theorem counter_post_above_safe_range:
  "counter_post ''orderId'' 9007199254740992 Map.empty = (Inl ValidationError, Map.empty)"
  by (simp add: counter_post_def isInt_def MAX_SAFE_INTEGER_def)

text \<open>
  C9, amended. For every alphanumeric counter name and every integer start value:
  when the start value is below 1 or above \<open>MAX_SAFE_INTEGER\<close> (9007199254740991),
  initialize answers \<open>ValidationError\<close> and leaves the store as it was; otherwise it
  succeeds, the counter's stored value is exactly the start value whatever it was
  before, every other counter is untouched, and the same call repeated on the resulting
  store succeeds again and leaves that store unchanged.
\<close>

theorem counter_post_upsert:
  assumes "isAlphanumeric name"
  shows "(if startValue < 1 \<or> MAX_SAFE_INTEGER < startValue
          then counter_post name startValue db = (Inl ValidationError, db)
          else fst (counter_post name startValue db) = Inr ()
             \<and> snd (counter_post name startValue db) = db(name \<mapsto> startValue)
             \<and> stored (snd (counter_post name startValue db)) name = startValue
             \<and> counter_post name startValue (snd (counter_post name startValue db))
                 = (Inr (), snd (counter_post name startValue db)))"
  using assms by (auto simp add: counter_post_def isInt_def stored_def)

text \<open>
  The amended C9 at work: on a store where \<open>orderId\<close> holds 5, initialising it to 1027465
  overwrites the 5, and the start value 0 is refused.
\<close>

theorem counter_post_upsert_witness:
  "isAlphanumeric ''orderId''
   \<and> counter_post ''orderId'' 1027465 [''orderId'' \<mapsto> 5] = (Inr (), [''orderId'' \<mapsto> 1027465])
   \<and> counter_post ''orderId'' 0 [''orderId'' \<mapsto> 5] = (Inl ValidationError, [''orderId'' \<mapsto> 5])"
proof -
  have a: "isAlphanumeric ''orderId''" by (rule orderId_alphanumeric)
  have ok: "\<not> ((1027465::int) < 1 \<or> MAX_SAFE_INTEGER < 1027465)"
    by (simp add: MAX_SAFE_INTEGER_def)
  have "fst (counter_post ''orderId'' 1027465 [''orderId'' \<mapsto> 5]) = Inr ()
      \<and> snd (counter_post ''orderId'' 1027465 [''orderId'' \<mapsto> 5])
          = [''orderId'' \<mapsto> 5](''orderId'' \<mapsto> 1027465)"
    using counter_post_upsert [OF a, of 1027465 "[''orderId'' \<mapsto> 5]"] ok by simp
  moreover have "counter_post ''orderId'' 0 [''orderId'' \<mapsto> 5]
                 = (Inl ValidationError, [''orderId'' \<mapsto> 5])"
    using counter_post_upsert [OF a, of 0 "[''orderId'' \<mapsto> 5]"] by simp
  ultimately show ?thesis using a by (simp add: prod_eq_iff)
qed

section \<open>Counter engine: incrementAndGet\<close>

lemma counter_get_row:
  assumes "isAlphanumeric name"
  shows "counter_get name db
         = (Inr (js_Number (stored db name + 1)), db(name \<mapsto> stored db name + 1))"
  using assms
  by (cases "db name") (simp_all add: counter_get_def stored_def COALESCE_def plus_one_def)

text \<open>
  C1 is stated for every stored value. The payload is a JavaScript Number, and above
  \<open>2^53\<close> not every integer is one. From an empty store:
  initialize with 9007199254740991 (the largest start value admitted), then two
  increments. The first returns 9007199254740992. The second starts from the stored value
  \<open>v = 9007199254740992\<close>, stores \<open>v + 1 = 9007199254740993\<close> and returns 9007199254740992
  again: neither \<open>v + 1\<close> nor the value it has just stored.
\<close>

theorem counter_get_beyond_safe_range:
  "counter_post ''orderId'' 9007199254740991 Map.empty
     = (Inr (), [''orderId'' \<mapsto> 9007199254740991])
   \<and> counter_get ''orderId'' [''orderId'' \<mapsto> 9007199254740991]
     = (Inr 9007199254740992, [''orderId'' \<mapsto> 9007199254740992])
   \<and> counter_get ''orderId'' [''orderId'' \<mapsto> 9007199254740992]
     = (Inr 9007199254740992, [''orderId'' \<mapsto> 9007199254740993])"
proof -
  have "counter_post ''orderId'' 9007199254740991 Map.empty
          = (Inr (), [''orderId'' \<mapsto> 9007199254740991])"
    by (simp add: counter_post_def orderId_alphanumeric isInt_def MAX_SAFE_INTEGER_def)
  moreover have "js_Number 9007199254740992 = 9007199254740992"
    by (simp add: js_Number_exact)
  moreover have "js_Number 9007199254740993 = 9007199254740992"
    by (simp add: js_Number_def Let_def ulp_step ulp_small)
  ultimately show ?thesis
    by (simp add: counter_get_row [OF orderId_alphanumeric] stored_def)
qed

text \<open>
  C1, amended. For every alphanumeric counter name and every current stored value \<open>v\<close>
  (0 when no row for the name exists) with \<open>\<bar>v + 1\<bar> \<le> 2^53\<close>, one call to
  incrementAndGet returns \<open>v + 1\<close> and leaves the stored value for that name equal to the
  returned value, every other counter untouched.
\<close>

theorem counter_get_increments:
  assumes "isAlphanumeric name" and "\<bar>stored db name + 1\<bar> \<le> 2 ^ 53"
  shows "counter_get name db = (Inr (stored db name + 1), db(name \<mapsto> stored db name + 1))
       \<and> stored (snd (counter_get name db)) name = stored db name + 1"
  using assms by (simp add: counter_get_row js_Number_exact stored_def)

text \<open>
  The amended C1 on the specification's example: after initialize("orderId", 1027465),
  two successive calls return 1027466 and then 1027467.
\<close>

theorem counter_get_increments_witness:
  "counter_post ''orderId'' 1027465 Map.empty = (Inr (), [''orderId'' \<mapsto> 1027465])
   \<and> counter_get ''orderId'' [''orderId'' \<mapsto> 1027465]
     = (Inr 1027466, [''orderId'' \<mapsto> 1027466])
   \<and> counter_get ''orderId'' [''orderId'' \<mapsto> 1027466]
     = (Inr 1027467, [''orderId'' \<mapsto> 1027467])"
proof -
  have a: "isAlphanumeric ''orderId''" by (rule orderId_alphanumeric)
  have init: "counter_post ''orderId'' 1027465 Map.empty = (Inr (), [''orderId'' \<mapsto> 1027465])"
    by (simp add: counter_post_def a isInt_def MAX_SAFE_INTEGER_def)
  have r1: "\<bar>stored [''orderId'' \<mapsto> 1027465] ''orderId'' + 1\<bar> \<le> 2 ^ 53"
    by (simp add: stored_def)
  have r2: "\<bar>stored [''orderId'' \<mapsto> 1027466] ''orderId'' + 1\<bar> \<le> 2 ^ 53"
    by (simp add: stored_def)
  show ?thesis
    using init counter_get_increments [OF a r1] counter_get_increments [OF a r2]
    by (simp add: stored_def)
qed

section \<open>Queue engine: positions and order\<close>

lemma max_position_Max:
  "rows \<noteq> [] \<Longrightarrow> max_position rows = Max (set (map fst rows))"
  by (cases rows) (simp_all add: max_position_def Max.set_eq_fold [symmetric])


lemma max_position_ge: "r \<in> set rows \<Longrightarrow> fst r \<le> max_position rows"
proof -
  assume r: "r \<in> set rows"
  then have "rows \<noteq> []" by auto
  then have "max_position rows = Max (set (map fst rows))" by (rule max_position_Max)
  moreover have "fst r \<le> Max (set (map fst rows))" using r by (intro Max_ge) auto
  ultimately show ?thesis by simp
qed

lemma max_position_insert_item:
  "max_position (insert_item rows item) = max_position rows + 1"
proof (cases "rows = []")
  case True
  then show ?thesis by (simp add: insert_item_def max_position_def)
next
  case False
  have "max_position (insert_item rows item) = Max (set (map fst (insert_item rows item)))"
    by (rule max_position_Max) (simp add: insert_item_def)
  also have "\<dots> = Max (insert (max_position rows + 1) (set (map fst rows)))"
    by (simp add: insert_item_def)
  also have "\<dots> = max (max_position rows + 1) (Max (set (map fst rows)))"
    using False by (intro Max_insert) auto
  also have "\<dots> = max_position rows + 1"
    using False by (simp add: max_position_Max)
  finally show ?thesis .
qed

lemma insert_items_closed:
  "insert_items rows items
   = rows @ zip [max_position rows + 1 .. max_position rows + int (length items)] items"
proof (induction items arbitrary: rows)
  case Nil
  then show ?case by simp
next
  case (Cons item items)
  let ?m = "max_position rows"
  have step: "[?m + 1 .. ?m + int (length (item # items))]
              = (?m + 1) # [?m + 1 + 1 .. ?m + 1 + int (length items)]"
    by (subst upto_rec1) (simp_all add: algebra_simps)
  have "insert_items rows (item # items) = insert_items (insert_item rows item) items"
    by simp
  also have "\<dots> = insert_item rows item
                   @ zip [?m + 1 + 1 .. ?m + 1 + int (length items)] items"
    by (simp only: Cons.IH max_position_insert_item)
  also have "\<dots> = rows @ zip [?m + 1 .. ?m + int (length (item # items))] (item # items)"
    by (simp only: step insert_item_def zip_Cons_Cons append_assoc append_Cons append_Nil)
  finally show ?case .
qed

lemma map_fst_insert_items:
  "map fst (insert_items rows items)
   = map fst rows @ [max_position rows + 1 .. max_position rows + int (length items)]"
  by (simp add: insert_items_closed)

lemma map_snd_insert_items:
  "map snd (insert_items rows items) = map snd rows @ items"
  by (simp add: insert_items_closed)

lemma primary_key_insert_items:
  assumes "primary_key rows"
  shows "primary_key (insert_items rows items)"
proof -
  have "fst ` set rows \<inter> {max_position rows + 1 .. max_position rows + int (length items)} = {}"
    using max_position_ge [of _ rows] by fastforce
  then show ?thesis
    using assms by (simp add: primary_key_def map_fst_insert_items)
qed

lemma primary_key_delete:
  "primary_key rows \<Longrightarrow> primary_key (delete_where_position_in ps rows)"
  by (simp add: primary_key_def delete_where_position_in_def distinct_map_filter)

lemma distinct_map_insort_key:
  "distinct (map f (insort_key f x xs)) = (f x \<notin> f ` set xs \<and> distinct (map f xs))"
  by (induction xs) (auto simp: set_insort_key)

lemma distinct_map_sort_key:
  "distinct (map f (sort_key f xs)) = distinct (map f xs)"
  by (induction xs) (simp_all add: distinct_map_insort_key)

lemma order_by_position_ascending:
  "primary_key rows \<Longrightarrow> sorted_wrt (<) (map fst (order_by_position rows))"
  by (simp add: strict_sorted_iff order_by_position_def primary_key_def distinct_map_sort_key)

lemma filter_not_in_take:
  assumes "distinct (map f s)"
  shows "filter (\<lambda>r. f r \<notin> set (map f (take k s))) s = drop k s"
proof -
  have d: "distinct (map f (take k s) @ map f (drop k s))"
    using assms by (simp flip: map_append)
  have "filter (\<lambda>r. f r \<notin> set (map f (take k s))) (take k s) = []"
    by (simp add: filter_empty_conv)
  moreover have "filter (\<lambda>r. f r \<notin> set (map f (take k s))) (drop k s) = drop k s"
    using d by (intro filter_True) auto
  ultimately have "filter (\<lambda>r. f r \<notin> set (map f (take k s))) (take k s @ drop k s) = drop k s"
    by (simp only: filter_append append_Nil)
  then show ?thesis by simp
qed

lemma order_by_position_delete:
  assumes "primary_key rows"
  shows "order_by_position
           (delete_where_position_in (map fst (take k (order_by_position rows))) rows)
         = drop k (order_by_position rows)"
proof -
  let ?s = "sort_key fst rows"
  have "sort_key fst (filter (\<lambda>r. fst r \<notin> set (map fst (take k ?s))) rows)
        = filter (\<lambda>r. fst r \<notin> set (map fst (take k ?s))) ?s"
    by (rule filter_sort [symmetric])
  also have "\<dots> = drop k ?s"
    using assms by (intro filter_not_in_take) (simp add: primary_key_def distinct_map_sort_key)
  finally show ?thesis
    by (simp add: order_by_position_def delete_where_position_in_def)
qed

lemma delete_selected_rows:
  assumes "primary_key rows"
  shows "delete_where_position_in (map fst (take k (order_by_position rows))) rows
         = filter (\<lambda>r. r \<notin> set (take k (order_by_position rows))) rows"
proof -
  have inj: "inj_on fst (set rows)"
    using assms by (simp add: primary_key_def distinct_map)
  have sub: "set (take k (order_by_position rows)) \<subseteq> set rows"
    using set_take_subset [of k "order_by_position rows"] by (simp add: order_by_position_def)
  have "\<And>r. r \<in> set rows \<Longrightarrow>
          (fst r \<in> fst ` set (take k (order_by_position rows)))
          = (r \<in> set (take k (order_by_position rows)))"
    using inj sub by (auto dest: inj_onD)
  then show ?thesis
    unfolding delete_where_position_in_def by (intro filter_cong) auto
qed

lemma length_delete_selected:
  assumes "primary_key rows"
  shows "length (delete_where_position_in (map fst (take k (order_by_position rows))) rows)
         = length rows - k"
proof -
  have "length (order_by_position
           (delete_where_position_in (map fst (take k (order_by_position rows))) rows))
        = length (drop k (order_by_position rows))"
    by (simp only: order_by_position_delete [OF assms])
  then show ?thesis by (simp add: order_by_position_def)
qed

section \<open>Queue engine: table names\<close>

lemma case_forms_head: "\<exists>others. case_forms c = c # others"
  by (simp add: case_forms_def split: option.split)

lemma spellings_head: "\<exists>others. spellings name = name # others"
proof (induction name)
  case Nil
  then show ?case by simp
next
  case (Cons c cs)
  then obtain rest where rest: "spellings cs = cs # rest" by blast
  obtain others where forms: "case_forms c = c # others"
    using case_forms_head by blast
  show ?case by (simp add: rest forms)
qed

lemma sql_table_exact: "db name \<noteq> None \<Longrightarrow> sql_table db name = Some name"
proof -
  assume present: "db name \<noteq> None"
  obtain others where "spellings name = name # others"
    using spellings_head by blast
  then show ?thesis using present by (simp add: sql_table_def)
qed

lemma sql_table_None: "sql_table db name = None \<Longrightarrow> db name = None"
  by (cases "db name") (simp_all add: sql_table_exact)


lemma spellings_q: "spellings ''q'' = [''q'', ''Q'']"
  by (simp add: case_forms_def upper_case_def lower_case_def)


lemma q_table_name: "table_name_ok sqlite3 ''q''"
  by (simp add: sqlite3_def plain_table_name_def to_lower_def upper_case_def lower_case_def
      sql_keywords_def)


lemma vin_table_name: "table_name_ok sqlite3 ''vin''"
  by (simp add: sqlite3_def plain_table_name_def to_lower_def upper_case_def lower_case_def
      sql_keywords_def)

lemma order_no_table_name: "\<not> table_name_ok sqlite3 ''order''"
  by (simp add: sqlite3_def plain_table_name_def to_lower_def upper_case_def lower_case_def
      sql_keywords_def)

lemma digit_first_no_table_name: "\<not> table_name_ok sqlite3 ''1abc''"
  by (simp add: sqlite3_def plain_table_name_def)

lemma max_variables_sqlite3: "max_variables sqlite3 = 32766"
  by (simp add: sqlite3_def)

section \<open>Queue engine: dequeue\<close>

lemma queue_get_existing:
  assumes "isAlphanumeric name" and "db name = Some rows" and "1 \<le> limit" and "limit < 2 ^ 63"
  shows "queue_get name (Some limit) db
         = (Inr (map snd (take (nat limit) (order_by_position rows))),
            db(name \<mapsto> delete_where_position_in
                           (map fst (take (nat limit) (order_by_position rows))) rows))"
  using assms
  by (simp add: queue_get_def limit_valid_def dbTableExists_def table_rows_def sql_limit_def)

lemma queue_get_beyond_int64:
  assumes "isAlphanumeric name" and "db name = Some rows" and "2 ^ 63 \<le> limit"
  shows "queue_get name (Some limit) db = (Inl StorageError, db)"
  using assms
  by (simp add: queue_get_def limit_valid_def dbTableExists_def table_rows_def sql_limit_def)

lemma queue_get_default_limit: "queue_get name None db = queue_get name (Some 1) db"
  by (simp add: queue_get_def limit_valid_def)

lemma queue_depth_existing:
  assumes "isAlphanumeric name" and "db name = Some rows"
  shows "queue_depth name db = (Inr (length rows), db)"
  using assms by (simp add: queue_depth_def dbTableExists_def table_rows_def)

text \<open>
  Enqueue of a validated body under a name the build takes, with no more items than it
  allows: the items go to the table the name denotes, which is created under the name
  as written when the name denotes none.
\<close>

lemma queue_post_rows:
  assumes "isAlphanumeric name" and "accepts (JArray items)" and "items \<noteq> []"
    and "table_name_ok sq name" and "length items \<le> max_variables sq"
    and "target = (case sql_table db name of None \<Rightarrow> name | Some stored_name \<Rightarrow> stored_name)"
  shows "queue_post sq accepts name (JArray items) db
         = (Inr (), db(target \<mapsto> insert_items (table_rows db target) items))"
proof (cases "sql_table db name")
  case None
  then have absent: "db name = None" by (rule sql_table_None)
  have new: "sql_table (db(name \<mapsto> [])) name = Some name"
    by (rule sql_table_exact) simp
  show ?thesis
    using assms None absent new
    by (simp add: queue_post_def isArray_def dbTableExists_def create_table_if_not_exists_def
        insert_into_def table_rows_def)
next
  case (Some k)
  show ?thesis
  proof (cases "db name")
    case None
    then show ?thesis
      using assms Some
      by (simp add: queue_post_def isArray_def dbTableExists_def create_table_if_not_exists_def
          insert_into_def)
  next
    case (Some rows)
    then have "sql_table db name = Some name" by (intro sql_table_exact) simp
    then show ?thesis
      using assms Some
      by (simp add: queue_post_def isArray_def dbTableExists_def insert_into_def)
  qed
qed

lemma queue_post_no_table_name:
  assumes "isAlphanumeric name" and "accepts (JArray items)" and "\<not> table_name_ok sq name"
  shows "queue_post sq accepts name (JArray items) db = (Inl StorageError, db)"
  using assms
  by (simp add: queue_post_def isArray_def create_table_if_not_exists_def insert_into_def)

lemma length_insert_items:
  "length (insert_items rows items) = length rows + length items"
  by (simp add: insert_items_closed)

lemma order_by_position_fresh:
  "order_by_position (insert_items [] items) = insert_items [] items"
  unfolding order_by_position_def
  by (rule sort_key_id_if_sorted) (simp add: map_fst_insert_items)

lemma fresh_round_trip:
  assumes "isAlphanumeric name" and "sql_table db name = None" and "accepts (JArray items)"
    and "items \<noteq> []" and "table_name_ok sq name" and "length items \<le> max_variables sq"
    and "int (length items) \<le> limit" and "limit < 2 ^ 63"
  shows "queue_get name (Some limit) (snd (queue_post sq accepts name (JArray items) db))
         = (Inr items, db(name \<mapsto> []))"
proof -
  let ?rows = "insert_items [] items"
  have absent: "db name = None" using assms(2) by (rule sql_table_None)
  have post: "snd (queue_post sq accepts name (JArray items) db) = db(name \<mapsto> ?rows)"
    using queue_post_rows [of name accepts items sq name db] assms absent
    by (simp add: table_rows_def)
  have limit: "1 \<le> limit" using assms(4,7) by (cases items) simp_all
  have all: "take (nat limit) (order_by_position ?rows) = ?rows"
    using assms(7) by (simp add: order_by_position_fresh length_insert_items)
  have "queue_get name (Some limit) (db(name \<mapsto> ?rows))
        = (Inr (map snd ?rows), (db(name \<mapsto> ?rows))(name \<mapsto>
             delete_where_position_in (map fst ?rows) ?rows))"
    using queue_get_existing [of name "db(name \<mapsto> ?rows)" ?rows limit] assms(1,8) limit
    by (simp add: all)
  moreover have "delete_where_position_in (map fst ?rows) ?rows = []"
    by (simp add: delete_where_position_in_def filter_empty_conv)
  ultimately show ?thesis
    by (simp add: post map_snd_insert_items)
qed

lemma vin_alphanumeric: "isAlphanumeric ''vin''"
  by (simp add: isAlphanumeric_def alphanumerics_def)

lemma q_alphanumeric: "isAlphanumeric ''q''"
  by (simp add: isAlphanumeric_def alphanumerics_def)


text \<open>
  C2 is stated for every limit of at least 1 and for every body \<open>[a, b, c]\<close>. Three
  ways it fails. The limit 9223372036854775808 passes validation and SQLite refuses
  it: on the queue \<open>q\<close> of depth 1 dequeue answers 500 and removes nothing. The body
  \<open>["", "b", "c"]\<close> is refused by the validator: enqueue answers 400, no queue is
  created, and the dequeue that follows answers 404. And when a table \<open>Q\<close> exists, enqueue
  to the queue \<open>q\<close>, which does not exist, puts the items into \<open>Q\<close>, and the dequeue from
  \<open>q\<close> that follows answers 404.
\<close>

theorem queue_get_round_trip_refused:
  "queue_get ''q'' (Some 9223372036854775808) [''q'' \<mapsto> [(1, JString ''a'')]]
     = (Inl StorageError, [''q'' \<mapsto> [(1, JString ''a'')]])
   \<and> queue_post sqlite3 notEmpty ''q'' (JArray [JString [], JString ''b'', JString ''c''])
       Map.empty
     = (Inl ValidationError, Map.empty)
   \<and> queue_get ''q'' (Some 3) Map.empty = (Inl NotFound, Map.empty)
   \<and> queue_post sqlite3 notEmpty ''q'' (JArray [JString ''a'', JString ''b'', JString ''c''])
       [''Q'' \<mapsto> []]
     = (Inr (), [''Q'' \<mapsto> [(1, JString ''a''), (2, JString ''b''), (3, JString ''c'')]])
   \<and> queue_get ''q'' (Some 3)
       [''Q'' \<mapsto> [(1, JString ''a''), (2, JString ''b''), (3, JString ''c'')]]
     = (Inl NotFound, [''Q'' \<mapsto> [(1, JString ''a''), (2, JString ''b''), (3, JString ''c'')]])"
proof -
  have big: "queue_get ''q'' (Some 9223372036854775808) [''q'' \<mapsto> [(1, JString ''a'')]]
             = (Inl StorageError, [''q'' \<mapsto> [(1, JString ''a'')]])"
    by (rule queue_get_beyond_int64 [OF q_alphanumeric]) simp_all
  have refused: "queue_post sqlite3 notEmpty ''q'' (JArray [JString [], JString ''b'', JString ''c''])
                   Map.empty = (Inl ValidationError, Map.empty)"
    by (simp add: queue_post_def notEmpty_def)
  have absent: "queue_get ''q'' (Some 3) Map.empty = (Inl NotFound, Map.empty)"
    by (simp add: queue_get_def q_alphanumeric limit_valid_def dbTableExists_def)
  have denotes: "sql_table [''Q'' \<mapsto> []] ''q'' = Some ''Q''"
    by (simp add: sql_table_def spellings_q del: spellings.simps)
  have other: "queue_post sqlite3 notEmpty ''q'' (JArray [JString ''a'', JString ''b'', JString ''c''])
                 [''Q'' \<mapsto> []]
               = (Inr (), [''Q'' \<mapsto> [(1, JString ''a''), (2, JString ''b''), (3, JString ''c'')]])"
    using queue_post_rows [of "''q''" notEmpty "[JString ''a'', JString ''b'', JString ''c'']"
        sqlite3 "''Q''" "[''Q'' \<mapsto> []]"]
    by (simp add: q_alphanumeric q_table_name max_variables_sqlite3 notEmpty_def denotes
        table_rows_def insert_item_def max_position_def)
  have lost: "queue_get ''q'' (Some 3)
       [''Q'' \<mapsto> [(1, JString ''a''), (2, JString ''b''), (3, JString ''c'')]]
     = (Inl NotFound, [''Q'' \<mapsto> [(1, JString ''a''), (2, JString ''b''), (3, JString ''c'')]])"
    by (simp add: queue_get_def q_alphanumeric limit_valid_def dbTableExists_def)
  show ?thesis
    by (simp only: big refused absent other lost simp_thms)
qed

text \<open>
  C2, amended. For an existing queue with rows \<open>rows\<close> (depth \<open>n = length rows\<close>, positions
  distinct as the primary key has them) and a limit from 1 to \<open>2^63 - 1\<close>, let \<open>taken\<close>
  be the first \<open>limit\<close> rows in ascending position order and \<open>rest\<close> the others in that
  order. Dequeue returns the items of \<open>taken\<close>, in that order, and leaves the table
  without exactly the rows of \<open>taken\<close>. \<open>taken\<close> has \<open>k = min limit n\<close> rows;
  \<open>taken @ rest\<close> is all rows of the table with strictly ascending positions, so
  \<open>taken\<close> holds the \<open>k\<close> lowest positions; the table left behind is \<open>rest\<close> and the
  depth afterwards is \<open>n - k\<close>. An absent limit is the limit 1. And when the name
  denotes no table in any letter case, is a table name for the build, and \<open>[a, b, c]\<close>
  is a body the validator accepts, enqueue of \<open>[a, b, c]\<close> followed by dequeue with
  limit 3 returns \<open>[a, b, c]\<close> and leaves the queue existing with depth 0.
\<close>

theorem queue_get_fifo:
  assumes "isAlphanumeric name" and "db name = Some rows" and "primary_key rows"
    and "1 \<le> limit" and "limit < 2 ^ 63"
    and "taken = take (nat limit) (order_by_position rows)"
    and "rest = drop (nat limit) (order_by_position rows)"
  shows "queue_get name (Some limit) db
           = (Inr (map snd taken), db(name \<mapsto> filter (\<lambda>r. r \<notin> set taken) rows))
       \<and> length taken = min (nat limit) (length rows)
       \<and> sorted_wrt (<) (map fst (taken @ rest))
       \<and> set (taken @ rest) = set rows
       \<and> order_by_position (filter (\<lambda>r. r \<notin> set taken) rows) = rest
       \<and> fst (queue_depth name (snd (queue_get name (Some limit) db)))
           = Inr (length rows - min (nat limit) (length rows))
       \<and> queue_get name None db = queue_get name (Some 1) db
       \<and> (sql_table db0 name = None \<and> table_name_ok sq name \<and> 3 \<le> max_variables sq
            \<and> accepts (JArray [a, b, c])
            \<longrightarrow> queue_get name (Some 3) (snd (queue_post sq accepts name (JArray [a, b, c]) db0))
                = (Inr [a, b, c], db0(name \<mapsto> [])))"
proof -
  let ?del = "delete_where_position_in (map fst taken) rows"
  have del: "?del = filter (\<lambda>r. r \<notin> set taken) rows"
    unfolding assms(6) by (rule delete_selected_rows [OF assms(3)])
  have get: "queue_get name (Some limit) db = (Inr (map snd taken), db(name \<mapsto> ?del))"
    unfolding assms(6) by (rule queue_get_existing [of name db rows limit, OF assms(1,2,4,5)])
  have len: "length taken = min (nat limit) (length rows)"
    by (simp add: assms(6) order_by_position_def min.commute)
  have whole: "taken @ rest = order_by_position rows"
    by (simp add: assms(6,7))
  have asc: "sorted_wrt (<) (map fst (taken @ rest))"
    unfolding whole by (rule order_by_position_ascending [OF assms(3)])
  have all: "set (taken @ rest) = set rows"
    unfolding whole by (simp add: order_by_position_def)
  have remaining: "order_by_position ?del = rest"
    unfolding assms(6,7) by (rule order_by_position_delete [OF assms(3)])
  have "length ?del = length rows - nat limit"
    unfolding assms(6) by (rule length_delete_selected [OF assms(3)])
  then have depth: "fst (queue_depth name (snd (queue_get name (Some limit) db)))
                    = Inr (length rows - min (nat limit) (length rows))"
    using queue_depth_existing [of name "db(name \<mapsto> ?del)" ?del] assms(1)
    by (simp add: get)
  have trip: "sql_table db0 name = None \<and> table_name_ok sq name \<and> 3 \<le> max_variables sq
            \<and> accepts (JArray [a, b, c])
            \<longrightarrow> queue_get name (Some 3) (snd (queue_post sq accepts name (JArray [a, b, c]) db0))
                = (Inr [a, b, c], db0(name \<mapsto> []))"
    using fresh_round_trip [of name db0 accepts "[a, b, c]" sq 3] assms(1) by simp
  show ?thesis
    using get len asc all remaining depth trip
    by (simp only: del queue_get_default_limit simp_thms)
qed

text \<open>
  The amended C2 on the specification's example: the queue \<open>vin\<close> holding VIN1, VIN2,
  VIN3 at positions 1, 2, 3 and the limit 2 give VIN1 and VIN2 and leave depth 1;
  enqueue of the three on an empty database followed by dequeue with limit 3 returns
  them in order.
\<close>

theorem queue_get_fifo_witness:
  "queue_get ''vin'' (Some 2)
     [''vin'' \<mapsto> [(1, JString ''VIN1''), (2, JString ''VIN2''), (3, JString ''VIN3'')]]
   = (Inr [JString ''VIN1'', JString ''VIN2''], [''vin'' \<mapsto> [(3, JString ''VIN3'')]])
   \<and> fst (queue_depth ''vin'' [''vin'' \<mapsto> [(3, JString ''VIN3'')]]) = Inr 1
   \<and> queue_get ''vin'' (Some 3)
       (snd (queue_post sqlite3 notEmpty ''vin''
               (JArray [JString ''VIN1'', JString ''VIN2'', JString ''VIN3'']) Map.empty))
     = (Inr [JString ''VIN1'', JString ''VIN2'', JString ''VIN3''], [''vin'' \<mapsto> []])"
proof -
  let ?rows = "[(1::int, JString ''VIN1''), (2, JString ''VIN2''), (3, JString ''VIN3'')]"
  let ?db = "[''vin'' \<mapsto> ?rows]"
  have pk: "primary_key ?rows" by (simp add: primary_key_def)
  have ord: "order_by_position ?rows = ?rows" by (simp add: order_by_position_def)
  have taken: "[(1::int, JString ''VIN1''), (2, JString ''VIN2'')]
               = take (nat 2) (order_by_position ?rows)"
    by (simp add: ord numeral_2_eq_2)
  have rest: "[(3::int, JString ''VIN3'')] = drop (nat 2) (order_by_position ?rows)"
    by (simp add: ord numeral_2_eq_2)
  have ne: "notEmpty (JArray [JString ''VIN1'', JString ''VIN2'', JString ''VIN3''])"
    by (simp add: notEmpty_def)
  have fresh: "sql_table Map.empty ''vin'' = None"
    by (simp add: sql_table_def find_None_iff)
  have vars: "3 \<le> max_variables sqlite3" by (simp add: max_variables_sqlite3)
  note fifo = queue_get_fifo [of "''vin''" ?db ?rows 2 _ _ Map.empty sqlite3 notEmpty
      "JString ''VIN1''" "JString ''VIN2''" "JString ''VIN3''",
      OF vin_alphanumeric _ pk _ _ taken rest]
  have get: "queue_get ''vin'' (Some 2) ?db
             = (Inr [JString ''VIN1'', JString ''VIN2''], [''vin'' \<mapsto> [(3, JString ''VIN3'')]])"
    using fifo by simp
  have depth: "fst (queue_depth ''vin'' (snd (queue_get ''vin'' (Some 2) ?db))) = Inr 1"
    using fifo [THEN conjunct2] by simp
  have trip: "queue_get ''vin'' (Some 3)
       (snd (queue_post sqlite3 notEmpty ''vin''
               (JArray [JString ''VIN1'', JString ''VIN2'', JString ''VIN3'']) Map.empty))
     = (Inr [JString ''VIN1'', JString ''VIN2'', JString ''VIN3''], [''vin'' \<mapsto> []])"
    using fifo ne fresh vars vin_table_name by simp
  show ?thesis
    using depth [unfolded get] get trip by simp
qed

section \<open>Queue engine: the primary key as an invariant\<close>

text \<open>
  The primary key holds in the empty database and every handler that writes keeps it,
  so it holds in every database the handlers can reach.
\<close>

lemma positions_unique_empty: "positions_unique Map.empty"
  by (simp add: positions_unique_def table_rows_def primary_key_def)

lemma positions_unique_update:
  assumes "positions_unique db" and "primary_key rows"
  shows "positions_unique (db(name \<mapsto> rows))"
  using assms by (simp add: positions_unique_def table_rows_def)

lemma positions_unique_create:
  assumes "positions_unique db" and "create_table_if_not_exists sq name db = Inr db1"
  shows "positions_unique db1"
  using assms
  by (auto simp add: create_table_if_not_exists_def positions_unique_update primary_key_def
      split: if_splits)

lemma positions_unique_insert:
  assumes "positions_unique db" and "insert_into sq name items db = Inr db2"
  shows "positions_unique db2"
proof -
  have "\<And>k. primary_key (insert_items (table_rows db k) items)"
    using assms(1) by (simp add: positions_unique_def primary_key_insert_items)
  then show ?thesis
    using assms
    by (auto simp add: insert_into_def positions_unique_update split: if_splits option.splits)
qed

lemma positions_unique_queue_post:
  assumes "positions_unique db"
  shows "positions_unique (snd (queue_post sq accepts name body db))"
proof -
  have created: "\<And>d. create_table_if_not_exists sq name db = Inr d \<Longrightarrow> positions_unique d"
    using assms by (rule positions_unique_create)
  have inserted: "\<And>d items d2. positions_unique d \<Longrightarrow> insert_into sq name items d = Inr d2
                    \<Longrightarrow> positions_unique d2"
    by (rule positions_unique_insert)
  show ?thesis
    using assms
    by (auto simp add: queue_post_def Let_def split: sum.splits if_splits
        intro: created inserted)
qed

lemma positions_unique_queue_get:
  assumes "positions_unique db"
  shows "positions_unique (snd (queue_get name limitParam db))"
proof -
  have "\<And>ps. primary_key (delete_where_position_in ps (table_rows db name))"
    using assms by (simp add: positions_unique_def primary_key_delete)
  then show ?thesis
    using assms
    by (auto simp add: queue_get_def Let_def positions_unique_update split: sum.splits)
qed

lemma positions_unique_queue_delete:
  assumes "positions_unique db"
  shows "positions_unique (snd (queue_delete name db))"
  using assms
  by (simp add: queue_delete_def positions_unique_def table_rows_def primary_key_def)

lemma positions_unique_primary_key:
  "positions_unique db \<Longrightarrow> db name = Some rows \<Longrightarrow> primary_key rows"
  by (auto simp add: positions_unique_def table_rows_def split: option.splits dest: spec [of _ name])

section \<open>Queue engine: enqueue\<close>


text \<open>
  A name that is alphanumeric and no table name: enqueue answers 500 and creates nothing.
\<close>

lemma queue_post_order_refused:
  "queue_post sqlite3 notEmpty ''order'' (JArray [JString ''a'']) Map.empty
     = (Inl StorageError, Map.empty)
   \<and> queue_post sqlite3 notEmpty ''1abc'' (JArray [JString ''a'']) Map.empty
     = (Inl StorageError, Map.empty)"
proof -
  have names: "isAlphanumeric ''order''" "isAlphanumeric ''1abc''"
    by (simp_all add: isAlphanumeric_def alphanumerics_def)
  have body: "notEmpty (JArray [JString ''a''])" by (simp add: notEmpty_def)
  show ?thesis
    using queue_post_no_table_name [of "''order''" notEmpty "[JString ''a'']" sqlite3 Map.empty]
      queue_post_no_table_name [of "''1abc''" notEmpty "[JString ''a'']" sqlite3 Map.empty]
      names body order_no_table_name digit_first_no_table_name
    by simp
qed




section \<open>Queue engine: peek\<close>

lemma queue_peek_existing:
  assumes "isAlphanumeric name" and "db name = Some rows"
  shows "queue_peek name db
         = (case order_by_position rows of
              [] \<Rightarrow> (Inr [], db)
            | row # _ \<Rightarrow> (new_Array (snd row), db))"
  using assms
  by (cases "order_by_position rows")
     (simp_all add: queue_peek_def dbTableExists_def table_rows_def sql_limit_def)

lemma new_Array_not_number:
  "\<forall>len. x \<noteq> JNumber len \<Longrightarrow> new_Array x = Inr [x]"
  by (cases x) (simp_all add: new_Array_def)

text \<open>
  What peek does get right: on an existing queue with no rows it answers the empty
  array, and when the item at the lowest position is not a number it answers the array
  of that one item.
\<close>

lemma queue_peek_head:
  assumes "isAlphanumeric name" and "db name = Some rows"
  shows "rows = [] \<Longrightarrow> queue_peek name db = (Inr [], db)"
    and "order_by_position rows = row # others \<Longrightarrow> \<forall>len. snd row \<noteq> JNumber len
         \<Longrightarrow> queue_peek name db = (Inr [snd row], db)"
  using assms by (simp_all add: queue_peek_existing order_by_position_def new_Array_not_number)

text \<open>
  C4 at a number. The queue \<open>q\<close> is created by enqueue of the one item 3. Peek then
  answers an array of three nulls, where export and dequeue answer the array of the
  item 3, as C4 says peek should. When the one item is -1, peek throws a RangeError.
\<close>

theorem queue_peek_number_item:
  "queue_post sqlite3 notEmpty ''q'' (JArray [JNumber 3]) Map.empty
     = (Inr (), [''q'' \<mapsto> [(1, JNumber 3)]])
   \<and> queue_peek ''q'' [''q'' \<mapsto> [(1, JNumber 3)]]
     = (Inr [JNull, JNull, JNull], [''q'' \<mapsto> [(1, JNumber 3)]])
   \<and> queue_export ''q'' [''q'' \<mapsto> [(1, JNumber 3)]]
     = (Inr [JNumber 3], [''q'' \<mapsto> [(1, JNumber 3)]])
   \<and> queue_get ''q'' None [''q'' \<mapsto> [(1, JNumber 3)]]
     = (Inr [JNumber 3], [''q'' \<mapsto> []])
   \<and> queue_peek ''q'' [''q'' \<mapsto> [(1, JNumber (- 1))]]
     = (Inl RangeError, [''q'' \<mapsto> [(1, JNumber (- 1))]])"
proof -
  have fresh: "sql_table Map.empty ''q'' = None"
    by (simp add: sql_table_def find_None_iff)
  have post: "queue_post sqlite3 notEmpty ''q'' (JArray [JNumber 3]) Map.empty
              = (Inr (), [''q'' \<mapsto> [(1, JNumber 3)]])"
    using queue_post_rows [of "''q''" notEmpty "[JNumber 3]" sqlite3 "''q''" Map.empty]
    by (simp add: q_alphanumeric q_table_name max_variables_sqlite3 notEmpty_def fresh
        table_rows_def insert_item_def max_position_def)
  have three: "new_Array (JNumber 3) = Inr [JNull, JNull, JNull]"
    by (simp add: new_Array_def numeral_3_eq_3)
  have minus: "new_Array (JNumber (- 1)) = Inl RangeError"
    by (simp add: new_Array_def)
  have peek3: "queue_peek ''q'' [''q'' \<mapsto> [(1, JNumber 3)]]
               = (Inr [JNull, JNull, JNull], [''q'' \<mapsto> [(1, JNumber 3)]])"
    by (simp add: queue_peek_existing q_alphanumeric order_by_position_def three)
  have peekm: "queue_peek ''q'' [''q'' \<mapsto> [(1, JNumber (- 1))]]
               = (Inl RangeError, [''q'' \<mapsto> [(1, JNumber (- 1))]])"
    by (simp add: queue_peek_existing q_alphanumeric order_by_position_def minus)
  have export: "queue_export ''q'' [''q'' \<mapsto> [(1, JNumber 3)]]
                = (Inr [JNumber 3], [''q'' \<mapsto> [(1, JNumber 3)]])"
    by (simp add: queue_export_def q_alphanumeric dbTableExists_def table_rows_def
        order_by_position_def)
  have get: "queue_get ''q'' None [''q'' \<mapsto> [(1, JNumber 3)]]
             = (Inr [JNumber 3], [''q'' \<mapsto> []])"
    by (simp add: queue_get_default_limit queue_get_existing q_alphanumeric
        order_by_position_def delete_where_position_in_def)
  show ?thesis
    by (simp only: post peek3 peekm export get simp_thms)
qed

text \<open>
  C10. Peek never changes the database: after one peek, and after any number \<open>n\<close> of
  peeks in a row, the database is the one before, whatever peek answered; so depth
  answers the same before and after, and every row keeps its position and item.
\<close>

theorem queue_peek_read_only:
  "snd (queue_peek name db) = db
   \<and> ((\<lambda>d. snd (queue_peek name d)) ^^ n) db = db
   \<and> queue_depth name (((\<lambda>d. snd (queue_peek name d)) ^^ n) db) = queue_depth name db
   \<and> table_rows (((\<lambda>d. snd (queue_peek name d)) ^^ n) db) name = table_rows db name"
proof -
  have one: "\<And>d. snd (queue_peek name d) = d"
    by (simp add: queue_peek_def split: sum.split list.split)
  have many: "((\<lambda>d. snd (queue_peek name d)) ^^ n) db = db"
    by (induction n) (simp_all add: one)
  show ?thesis unfolding many by (simp add: one)
qed

text \<open>
  C10 on a queue of two rows: two peeks in a row leave both rows where they were.
\<close>

theorem queue_peek_read_only_witness:
  "((\<lambda>d. snd (queue_peek ''q'' d)) ^^ 2) [''q'' \<mapsto> [(1, JString ''a''), (2, JNumber 5)]]
   = [''q'' \<mapsto> [(1, JString ''a''), (2, JNumber 5)]]"
  using queue_peek_read_only [of "''q''" "[''q'' \<mapsto> [(1, JString ''a''), (2, JNumber 5)]]" 2]
  by simp

section \<open>Queue engine: existence\<close>




text \<open>
  C7. For an alphanumeric queue name and any database, clear succeeds (200) and leaves
  no table under the name, every other queue untouched; depth on the name then answers
  \<open>NotFound\<close>.
\<close>

theorem queue_delete_always_succeeds:
  assumes "isAlphanumeric name"
  shows "queue_delete name db = (Inr (), db(name := None))
       \<and> \<not> dbTableExists (snd (queue_delete name db)) name
       \<and> table_rows (snd (queue_delete name db)) name = []
       \<and> queue_depth name (snd (queue_delete name db)) = (Inl NotFound, db(name := None))"
proof -
  have del: "queue_delete name db = (Inr (), db(name := None))"
  proof (cases "dbTableExists db name")
    case True
    then show ?thesis using assms by (simp add: queue_delete_def)
  next
    case False
    then have "db(name := None) = db" by (simp add: dbTableExists_def fun_upd_idem)
    then show ?thesis using assms False by (simp add: queue_delete_def)
  qed
  show ?thesis
    using assms by (simp add: del dbTableExists_def table_rows_def queue_depth_def)
qed

text \<open>
  C7 at work: clear of \<open>q\<close> on a database with a queue \<open>q\<close> of one row, and on the empty
  database, where \<open>q\<close> was never created.
\<close>

theorem queue_delete_always_succeeds_witness:
  "queue_delete ''q'' [''q'' \<mapsto> [(1, JString ''a'')]] = (Inr (), Map.empty)
   \<and> queue_delete ''q'' Map.empty = (Inr (), Map.empty)
   \<and> queue_depth ''q'' (snd (queue_delete ''q'' Map.empty)) = (Inl NotFound, Map.empty)"
proof -
  note full = queue_delete_always_succeeds [OF q_alphanumeric, of "[''q'' \<mapsto> [(1, JString ''a'')]]"]
  note absent = queue_delete_always_succeeds [OF q_alphanumeric, of Map.empty]
  have "queue_delete ''q'' [''q'' \<mapsto> [(1, JString ''a'')]] = (Inr (), Map.empty)"
    using full [THEN conjunct1] by simp
  moreover have "queue_delete ''q'' Map.empty = (Inr (), Map.empty)"
    using absent [THEN conjunct1] by simp
  moreover have "queue_depth ''q'' (snd (queue_delete ''q'' Map.empty))
                 = (Inl NotFound, Map.empty)"
    using absent [THEN conjunct2] by simp
  ultimately show ?thesis by (simp only: simp_thms)
qed

section \<open>Map store\<close>

lemma k_alphanumeric: "isAlphanumeric ''k''"
  by (simp add: isAlphanumeric_def alphanumerics_def)

text \<open>
  C8 lets put succeed for every JSON value. The body validator of the route refuses
  some: put of \<open>null\<close> is answered with a validation
  error, nothing is stored, and the get that follows answers \<open>NotFound\<close>.
\<close>

theorem map_post_null_refused:
  "map_post notEmpty ''k'' JNull Map.empty = (Inl ValidationError, Map.empty)
   \<and> map_get ''k'' Map.empty = (Inl NotFound, Map.empty)"
  by (simp add: map_post_def map_get_def notEmpty_def k_alphanumeric)

text \<open>
  C8, amended. For every alphanumeric key and every JSON value \<open>v\<close> that the route's
  body validator accepts, put succeeds whatever the key held before and stores \<open>v\<close>
  under the key, every other key untouched; the get that follows returns \<open>v\<close>. Get
  answers \<open>NotFound\<close> exactly when the key is absent.
\<close>

theorem map_post_then_get:
  assumes "isAlphanumeric key" and "accepts v"
  shows "map_post accepts key v db = (Inr (), db(key \<mapsto> v))
       \<and> map_get key (snd (map_post accepts key v db)) = (Inr v, db(key \<mapsto> v))
       \<and> ((fst (map_get key db) = Inl NotFound) = (db key = None))"
  using assms by (auto simp add: map_post_def map_get_def split: option.split)

text \<open>
  The amended C8 at work: the key \<open>k\<close> holds 1 and is overwritten by an object.
\<close>

theorem map_post_then_get_witness:
  "map_post notEmpty ''k'' (JObject [(''count'', JNumber 99)]) [''k'' \<mapsto> JNumber 1]
     = (Inr (), [''k'' \<mapsto> JObject [(''count'', JNumber 99)]])
   \<and> map_get ''k'' [''k'' \<mapsto> JObject [(''count'', JNumber 99)]]
     = (Inr (JObject [(''count'', JNumber 99)]), [''k'' \<mapsto> JObject [(''count'', JNumber 99)]])"
proof -
  have ne: "notEmpty (JObject [(''count'', JNumber 99)])" by (simp add: notEmpty_def)
  note put = map_post_then_get [of "''k''" notEmpty "JObject [(''count'', JNumber 99)]"
        "[''k'' \<mapsto> JNumber 1]", OF k_alphanumeric ne]
  have stored: "map_post notEmpty ''k'' (JObject [(''count'', JNumber 99)]) [''k'' \<mapsto> JNumber 1]
     = (Inr (), [''k'' \<mapsto> JObject [(''count'', JNumber 99)]])"
    using put [THEN conjunct1] by simp
  have "map_get ''k'' (snd (map_post notEmpty ''k'' (JObject [(''count'', JNumber 99)])
                              [''k'' \<mapsto> JNumber 1]))
     = (Inr (JObject [(''count'', JNumber 99)]), [''k'' \<mapsto> JObject [(''count'', JNumber 99)]])"
    using put [THEN conjunct2] by simp
  then show ?thesis
    using stored by simp
qed

end
